theory Spec2Isabelle
  imports Main
begin

section \<open>Strings and numbers of the host language\<close>

text \<open>
  The program is the TypeScript class \<^verbatim>\<open>TimeParser\<close> of \<^verbatim>\<open>src/timeParser.ts\<close>: the method
  \<^verbatim>\<open>suggest\<close> and its helpers \<^verbatim>\<open>printConciseTime\<close>, \<^verbatim>\<open>printPrecise\<close> and \<^verbatim>\<open>guessTime\<close>.

  A string of the program is modelled as a \<^typ>\<open>string\<close>, a list of 8-bit code units read
  as the code points U+0000 to U+00FF. The regular-expression classes and the string
  methods below are the ECMAScript ones restricted to that range. A number is a
  \<^typ>\<open>nat\<close>: the only numbers of the program are the values of digit runs and the clock
  fields of a date. \<^verbatim>\<open>parseInt\<close> is taken as exact, and a number is printed in decimal;
  the rounding of a double beyond 2^53 is not modelled.
\<close>

text \<open>The class \<^verbatim>\<open>\d\<close>.\<close>

definition is_digit :: "char \<Rightarrow> bool" where
  "is_digit c = (c \<in> set ''0123456789'')"

text \<open>
  The class \<^verbatim>\<open>\s\<close>, which is also what \<^verbatim>\<open>trim\<close> strips: tab, line feed, vertical tab,
  form feed, carriage return, space and the no-break space.
\<close>

definition is_space :: "char \<Rightarrow> bool" where
  "is_space c = (c \<in> set [CHR 0x09, CHR 0x0A, CHR 0x0B, CHR 0x0C, CHR 0x0D, CHR 0x20, CHR 0xA0])"

text \<open>The class \<^verbatim>\<open>\w\<close>, which decides the word boundary \<^verbatim>\<open>\b\<close>.\<close>

definition is_word_char :: "char \<Rightarrow> bool" where
  "is_word_char c = (c \<in> set ''abcdefghijklmnopqrstuvwxyzABCDEFGHIJKLMNOPQRSTUVWXYZ0123456789_'')"

text \<open>
  \<^verbatim>\<open>toLowerCase\<close>: the letters A to Z, and the upper-case letters U+00C0 to U+00DE
  (U+00D7, the multiplication sign, is not one), each mapped 32 code points up.
\<close>

definition upper_chars :: string where
  "upper_chars = ''ABCDEFGHIJKLMNOPQRSTUVWXYZ'' @
     [CHR 0xC0, CHR 0xC1, CHR 0xC2, CHR 0xC3, CHR 0xC4, CHR 0xC5, CHR 0xC6, CHR 0xC7,
      CHR 0xC8, CHR 0xC9, CHR 0xCA, CHR 0xCB, CHR 0xCC, CHR 0xCD, CHR 0xCE, CHR 0xCF,
      CHR 0xD0, CHR 0xD1, CHR 0xD2, CHR 0xD3, CHR 0xD4, CHR 0xD5, CHR 0xD6,
      CHR 0xD8, CHR 0xD9, CHR 0xDA, CHR 0xDB, CHR 0xDC, CHR 0xDD, CHR 0xDE]"

definition lower_chars :: string where
  "lower_chars = ''abcdefghijklmnopqrstuvwxyz'' @
     [CHR 0xE0, CHR 0xE1, CHR 0xE2, CHR 0xE3, CHR 0xE4, CHR 0xE5, CHR 0xE6, CHR 0xE7,
      CHR 0xE8, CHR 0xE9, CHR 0xEA, CHR 0xEB, CHR 0xEC, CHR 0xED, CHR 0xEE, CHR 0xEF,
      CHR 0xF0, CHR 0xF1, CHR 0xF2, CHR 0xF3, CHR 0xF4, CHR 0xF5, CHR 0xF6,
      CHR 0xF8, CHR 0xF9, CHR 0xFA, CHR 0xFB, CHR 0xFC, CHR 0xFD, CHR 0xFE]"

definition toLowerCase_char :: "char \<Rightarrow> char" where
  "toLowerCase_char c =
     (case map_of (zip upper_chars lower_chars) c of Some l \<Rightarrow> l | None \<Rightarrow> c)"

definition toLowerCase :: "string \<Rightarrow> string" where
  "toLowerCase s = map toLowerCase_char s"

definition trim :: "string \<Rightarrow> string" where
  "trim s = rev (dropWhile is_space (rev (dropWhile is_space s)))"

text \<open>\<^verbatim>\<open>s.startsWith(w)\<close>.\<close>

definition startsWith :: "string \<Rightarrow> string \<Rightarrow> bool" where
  "startsWith s w = (take (length w) s = w)"

definition digit_value :: "char \<Rightarrow> nat" where
  "digit_value c = of_char c - 48"

text \<open>\<^verbatim>\<open>parseInt\<close>, which the program applies to digit runs only.\<close>

definition parseInt :: "string \<Rightarrow> nat" where
  "parseInt s = foldl (\<lambda>a c. 10 * a + digit_value c) 0 s"

text \<open>A number inside a template string: its decimal digits.\<close>

fun show_nat :: "nat \<Rightarrow> string" where
  "show_nat n = (if n < 10 then [''0123456789'' ! n]
                 else show_nat (n div 10) @ [''0123456789'' ! (n mod 10)])"

declare show_nat.simps [simp del]

text \<open>
  The exceptions that can end a call of \<^verbatim>\<open>suggest\<close>. The program raises one by itself:
  \<^verbatim>\<open>String.prototype.repeat\<close> throws a \<^verbatim>\<open>RangeError\<close> on a negative count. The date
  library raises the other: it throws a \<^verbatim>\<open>TypeError\<close> when an invalid date is formatted.
\<close>

datatype error = RangeError | TypeError

definition repeat :: "string \<Rightarrow> int \<Rightarrow> error + string" where
  "repeat s n = (if n < 0 then Inl RangeError else Inr (concat (replicate (nat n) s)))"

text \<open>
  The truth value of an optional string and of an optional number: \<^verbatim>\<open>undefined\<close>, the
  empty string and zero are false.
\<close>

definition truthy_str :: "string option \<Rightarrow> bool" where
  "truthy_str v = (case v of None \<Rightarrow> False | Some s \<Rightarrow> s \<noteq> [])"

definition truthy_num :: "nat option \<Rightarrow> bool" where
  "truthy_num v = (case v of None \<Rightarrow> False | Some n \<Rightarrow> n \<noteq> 0)"

text \<open>An array read \<^verbatim>\<open>xs[i]\<close>: \<^verbatim>\<open>undefined\<close> out of range.\<close>

definition nth_opt :: "'a list \<Rightarrow> nat \<Rightarrow> 'a option" where
  "nth_opt xs i = (if i < length xs then Some (xs ! i) else None)"

text \<open>An optional number inside a template string.\<close>

definition str_num :: "nat option \<Rightarrow> string" where
  "str_num v = (case v of None \<Rightarrow> ''undefined'' | Some n \<Rightarrow> show_nat n)"

section \<open>The digit pattern\<close>

text \<open>
  Line 27 replaces every match of
  \<^verbatim>\<open>/(\d+)([:.]\d*)?\s*(am?|pm?|st|nd|rd|th)?/g\<close>
  by the result of a callback. A match is recorded with its three groups; an optional
  group that took no part in the match is \<^verbatim>\<open>undefined\<close>, here \<^const>\<open>None\<close>.

  Every quantifier of the pattern is greedy and everything after the first group may
  match the empty string, so the first attempt at a position succeeds and no
  backtracking takes place: the longest digit run, then a separator with the longest
  digit run after it if a separator is there, then the longest run of white space, then
  the first alternative of the suffix group that fits.
\<close>

record rmatch =
  m_num :: string
  m_min :: "string option"
  m_suffix :: "string option"

text \<open>The alternatives of the third group in the order the matcher tries them.\<close>

definition suffixes :: "string list" where
  "suffixes = [''am'', ''a'', ''pm'', ''p'', ''st'', ''nd'', ''rd'', ''th'']"

definition match_min :: "string \<Rightarrow> string option \<times> string" where
  "match_min r =
     (case r of
        [] \<Rightarrow> (None, r)
      | c # cs \<Rightarrow>
          if c = CHR '':'' \<or> c = CHR ''.''
          then (Some (c # takeWhile is_digit cs), dropWhile is_digit cs)
          else (None, r))"

definition match_suffix :: "string \<Rightarrow> string option \<times> string" where
  "match_suffix r =
     (case find (startsWith r) suffixes of
        None \<Rightarrow> (None, r)
      | Some x \<Rightarrow> (Some x, drop (length x) r))"

text \<open>The match that starts at the head of \<open>s\<close>, with what follows it.\<close>

definition match_at :: "string \<Rightarrow> (rmatch \<times> string) option" where
  "match_at s =
     (let num = takeWhile is_digit s
      in if num = [] then None
         else
           let (mn, r2) = match_min (dropWhile is_digit s);
               (suf, r4) = match_suffix (dropWhile is_space r2)
           in Some (\<lparr>m_num = num, m_min = mn, m_suffix = suf\<rparr>, r4))"

text \<open>
  The global replace: the matches from left to right, and the string that is left when
  each match is replaced by the empty string (the callback returns \<^verbatim>\<open>''\<close> always).
\<close>

function scan :: "string \<Rightarrow> rmatch list \<times> string" where
  "scan [] = ([], [])"
| "scan (c # cs) =
     (case match_at (c # cs) of
        Some (m, rest) \<Rightarrow> (let (ms, w) = scan rest in (m # ms, w))
      | None \<Rightarrow> (let (ms, w) = scan cs in (ms, c # w)))"
  by pat_completeness auto
termination
proof (relation "measure length")
  show "wf (measure length)" by simp
next
  fix c :: char and cs :: string and x2 m rest
  assume "match_at (c # cs) = Some x2" and "(m, rest) = x2"
  then have a: "match_at (c # cs) = Some (m, rest)" by simp
  have mm: "length (snd (match_min r)) \<le> length r" for r
    using length_dropWhile_le [of is_digit "tl r"]
    by (cases r) (auto simp: match_min_def)
  have ms: "length (snd (match_suffix r)) \<le> length r" for r
    by (simp add: match_suffix_def split: option.split)
  from a have d: "is_digit c"
    by (auto simp: match_at_def Let_def split: if_splits)
  from a d have "rest = snd (match_suffix (dropWhile is_space (snd (match_min (dropWhile is_digit cs)))))"
    by (auto simp: match_at_def Let_def split: prod.splits)
  then have "length rest \<le> length (dropWhile is_space (snd (match_min (dropWhile is_digit cs))))"
    using ms by simp
  also have "\<dots> \<le> length (snd (match_min (dropWhile is_digit cs)))"
    by (rule length_dropWhile_le)
  also have "\<dots> \<le> length (dropWhile is_digit cs)"
    by (rule mm)
  also have "\<dots> \<le> length cs"
    by (rule length_dropWhile_le)
  finally show "(rest, c # cs) \<in> measure length" by simp
next
  fix c :: char and cs :: string
  show "(cs, c # cs) \<in> measure length" by simp
qed

section \<open>The tokenizer: lines 18 to 45 of suggest\<close>

text \<open>
  The variables the callback assigns (\<^verbatim>\<open>time\<close>, \<^verbatim>\<open>dayOfMonth\<close>, \<^verbatim>\<open>digits\<close>), and \<^verbatim>\<open>word\<close>.
  \<^verbatim>\<open>now\<close> of line 22 is read by no line that is not commented out.
\<close>

record locals =
  time :: "string option"
  dayOfMonth :: "nat option"
  digits :: "nat list"
  word :: string

text \<open>
  The test \<^verbatim>\<open>suffix?.match(/^a|p/)\<close> of line 28: an \<^verbatim>\<open>a\<close> at the start, or a \<^verbatim>\<open>p\<close>
  anywhere.
\<close>

definition suffix_matches_ap :: "string \<Rightarrow> bool" where
  "suffix_matches_ap s = (startsWith s ''a'' \<or> CHR ''p'' \<in> set s)"

text \<open>\<^verbatim>\<open>min.replace('.', ':')\<close> of line 30: the first full stop only.\<close>

fun replace_dot :: "string \<Rightarrow> string" where
  "replace_dot [] = []"
| "replace_dot (c # cs) = (if c = CHR ''.'' then CHR '':'' # cs else c # replace_dot cs)"

text \<open>
  The condition of line 28, with the default \<^verbatim>\<open>min = ''\<close> of the callback's parameter.
\<close>

definition is_explicit_time :: "rmatch \<Rightarrow> bool" where
  "is_explicit_time m =
     (truthy_str (Some (case m_min m of None \<Rightarrow> [] | Some x \<Rightarrow> x))
      \<or> (case m_suffix m of None \<Rightarrow> False | Some s \<Rightarrow> suffix_matches_ap s))"

text \<open>
  Lines 29 to 35: the string assigned to \<^verbatim>\<open>time\<close>. Line 31 pads the minutes with
  \<^verbatim>\<open>'0'.repeat(3 - min.length)\<close>, which throws when the count is negative.
\<close>

definition explicit_time :: "rmatch \<Rightarrow> error + string" where
  "explicit_time m =
     (let min0 = (case m_min m of None \<Rightarrow> [] | Some x \<Rightarrow> x);
          padded =
            (if truthy_str (Some min0)
             then (let min1 = replace_dot min0
                   in case repeat ''0'' (3 - int (length min1)) of
                        Inl e \<Rightarrow> Inl e
                      | Inr z \<Rightarrow> Inr (min1 @ z))
             else Inr min0)
      in case padded of
           Inl e \<Rightarrow> Inl e
         | Inr min2 \<Rightarrow>
             (let period =
                    (if (case m_suffix m of None \<Rightarrow> False | Some s \<Rightarrow> startsWith s ''a'')
                     then ''am'' else ''pm'')
              in Inr (m_num m @ min2 @ '' '' @ period)))"

text \<open>The callback of lines 27 to 42 on one match.\<close>

definition callback :: "locals \<Rightarrow> rmatch \<Rightarrow> error + locals" where
  "callback st m =
     (if is_explicit_time m
      then (case explicit_time m of
              Inl e \<Rightarrow> Inl e
            | Inr t \<Rightarrow> Inr (st\<lparr>time := Some t\<rparr>))
      else if \<not> truthy_str (m_suffix m)
      then Inr (st\<lparr>digits := digits st @ [parseInt (m_num m)]\<rparr>)
      else Inr (st\<lparr>dayOfMonth := Some (parseInt (m_num m))\<rparr>))"

text \<open>The callback on the matches in order; an exception ends the run.\<close>

fun run_callback :: "locals \<Rightarrow> rmatch list \<Rightarrow> error + locals" where
  "run_callback st [] = Inr st"
| "run_callback st (m # ms) =
     (case callback st m of
        Inl e \<Rightarrow> Inl e
      | Inr st' \<Rightarrow> run_callback st' ms)"

text \<open>
  Line 45, \<^verbatim>\<open>word.replace(/\s+at?/, '')\<close>: the leftmost match only. A match starts at a
  white-space character whose run of white space is followed by an \<^verbatim>\<open>a\<close>; where the run
  is followed by something else, no position inside the run matches either.
\<close>

fun strip_at :: "string \<Rightarrow> string" where
  "strip_at [] = []"
| "strip_at (c # cs) =
     (if is_space c
      then (let r = dropWhile is_space cs
            in if startsWith r ''at'' then drop 2 r
               else if startsWith r ''a'' then drop 1 r
               else c # strip_at cs)
      else c # strip_at cs)"

definition tokenize :: "string \<Rightarrow> error + locals" where
  "tokenize input0 =
     (let input = toLowerCase (trim input0);
          (ms, w) = scan input
      in case run_callback \<lparr>time = None, dayOfMonth = None, digits = [], word = []\<rparr> ms of
           Inl e \<Rightarrow> Inl e
         | Inr st \<Rightarrow> Inr (st\<lparr>word := strip_at (trim w)\<rparr>))"

section \<open>The calendar engine\<close>

text \<open>
  The program calls the date library Sugar, which is not part of it, so the library is a
  parameter: the operations \<^verbatim>\<open>suggest\<close> calls on a date, for the moment of the call. A date
  is any value of the type \<open>'d\<close>, the invalid date that the library returns for a phrase
  it cannot read included. \<^verbatim>\<open>addHours\<close> and \<^verbatim>\<open>addDays\<close> update a date in place; here they
  return the updated date. \<^verbatim>\<open>format\<close> may throw: the library throws a \<^verbatim>\<open>TypeError\<close> when
  it is asked to format an invalid date, and \<^verbatim>\<open>suggest\<close> has no handler, so the exception
  ends the call.
\<close>

record 'd engine =
  Date_create :: "string \<Rightarrow> 'd"
  isPast :: "'d \<Rightarrow> bool"
  isFuture :: "'d \<Rightarrow> bool"
  isToday :: "'d \<Rightarrow> bool"
  addHours :: "'d \<Rightarrow> nat \<Rightarrow> 'd"
  addDays :: "'d \<Rightarrow> nat \<Rightarrow> 'd"
  getHours :: "'d \<Rightarrow> nat"
  getMinutes :: "'d \<Rightarrow> nat"
  format :: "'d \<Rightarrow> string \<Rightarrow> error + string"

record 'd TimeSuggestion =
  natural :: string
  precise :: "string option"
  date :: 'd

text \<open>
  One statement after another: the second runs on the value of the first, unless the
  first threw.
\<close>

definition andThen :: "error + 'a \<Rightarrow> ('a \<Rightarrow> error + 'b) \<Rightarrow> error + 'b" where
  "andThen m f = (case m of Inl e \<Rightarrow> Inl e | Inr x \<Rightarrow> f x)"

text \<open>A loop \<^verbatim>\<open>for (let x of xs)\<close> whose body updates \<^verbatim>\<open>res\<close> and may throw.\<close>

fun for_each :: "('a \<Rightarrow> 's \<Rightarrow> error + 's) \<Rightarrow> 'a list \<Rightarrow> 's \<Rightarrow> error + 's" where
  "for_each body [] s = Inr s"
| "for_each body (x # xs) s = andThen (body x s) (for_each body xs)"

section \<open>The helpers: lines 133 to 147\<close>

definition printConciseTime :: "'d engine \<Rightarrow> 'd \<Rightarrow> error + string" where
  "printConciseTime E d =
     format E d (if getMinutes E d \<noteq> 0 then ''{h}:{mm} {tt}'' else ''{h} {tt}'')"

definition printPrecise :: "'d engine \<Rightarrow> 'd \<Rightarrow> error + string" where
  "printPrecise E d =
     (let t = (if getMinutes E d \<noteq> 0 then ''{h}:{mm} {tt}'' else ''{h} {tt}'')
      in format E d (''{Dow}, {Mon} {d} at '' @ t))"

text \<open>
  \<^verbatim>\<open>guessTime\<close> is called with \<^verbatim>\<open>digits[0]\<close> or \<^verbatim>\<open>digits[1]\<close>, a number or \<^verbatim>\<open>undefined\<close>.
\<close>

definition guessTime :: "nat option \<Rightarrow> string" where
  "guessTime num =
     (case num of
        None \<Rightarrow> ''8 am''
      | Some n \<Rightarrow>
          if \<not> truthy_num (Some n) then ''8 am''
          else if n > 12 then show_nat (n - 12) @ '' pm''
          else if n < 8 then show_nat n @ '' pm''
          else show_nat n @ '' am'')"

section \<open>The rules: lines 56 to 124 of suggest\<close>

text \<open>
  Each block of \<^verbatim>\<open>suggest\<close> is a function from the list \<^verbatim>\<open>res\<close> before it to the list
  after it, or to the exception a \<^verbatim>\<open>format\<close> call of the block threw. \<^verbatim>\<open>v || alt\<close> on an
  optional string:
\<close>

definition or_str :: "string option \<Rightarrow> string \<Rightarrow> string" where
  "or_str v alt = (case v of None \<Rightarrow> alt | Some s \<Rightarrow> if s \<noteq> [] then s else alt)"

text \<open>The plural of lines 58 and 59: an \<^verbatim>\<open>s\<close> unless the number is 1.\<close>

definition plural :: "nat option \<Rightarrow> string" where
  "plural v = (if v \<noteq> Some 1 then ''s'' else [])"

text \<open>Lines 57 to 60. The block formats nothing.\<close>

definition rule_bare_quantity ::
  "'d engine \<Rightarrow> locals \<Rightarrow> 'd TimeSuggestion list \<Rightarrow> error + 'd TimeSuggestion list" where
  "rule_bare_quantity E st res =
     (let d0 = nth_opt (digits st) 0
      in if length (word st) = 0 \<and> truthy_num d0 \<and> \<not> truthy_str (time st)
         then Inr (res
              @ [\<lparr>natural = ''for '' @ str_num d0 @ '' hour'' @ plural d0, precise = None,
                  date = Date_create E (''in '' @ str_num d0 @ '' hours'')\<rparr>]
              @ [\<lparr>natural = ''for '' @ str_num d0 @ '' day'' @ plural d0, precise = None,
                  date = Date_create E (''in '' @ str_num d0 @ '' days'')\<rparr>])
         else Inr res)"

text \<open>Lines 63 to 68.\<close>

definition rule_bare_time ::
  "'d engine \<Rightarrow> locals \<Rightarrow> 'd TimeSuggestion list \<Rightarrow> error + 'd TimeSuggestion list" where
  "rule_bare_time E st res =
     (let d0 = nth_opt (digits st) 0
      in if length (word st) = 0
            \<and> (truthy_str (time st)
               \<or> (truthy_num d0 \<and> (case d0 of Some n \<Rightarrow> n < 24 | None \<Rightarrow> False)))
         then (let t = or_str (time st) (guessTime d0);
                   date0 = Date_create E t;
                   date1 = (if isPast E date0 then addHours E date0 24 else date0)
               in andThen (printConciseTime E date1)
                    (\<lambda>c. Inr (res
                       @ [\<lparr>natural = (if isToday E date1 then ''today'' else ''tomorrow'')
                                       @ '', '' @ c,
                           precise = None, date = date1\<rparr>])))
         else Inr res)"

text \<open>
  Lines 71 to 77. \<^verbatim>\<open>i.replace(/s$/, '')\<close> drops a final \<^verbatim>\<open>s\<close>. The loop formats nothing.
\<close>

definition interval_units :: "string list" where
  "interval_units = [''minutes'', ''hours'', ''days'', ''weeks'', ''months'', ''years'']"

definition strip_s :: "string \<Rightarrow> string" where
  "strip_s i = (if i \<noteq> [] \<and> last i = CHR ''s'' then butlast i else i)"

definition rule_interval ::
  "'d engine \<Rightarrow> locals \<Rightarrow> 'd TimeSuggestion list \<Rightarrow> error + 'd TimeSuggestion list" where
  "rule_interval E st res =
     (let d0 = nth_opt (digits st) 0;
          intervals =
            filter (\<lambda>i. length (digits st) > 0 \<and> length (word st) \<noteq> 0 \<and> startsWith i (word st))
              interval_units
      in for_each
           (\<lambda>i res.
              let date0 = Date_create E (''in '' @ str_num d0 @ '' '' @ i);
                  i' = (if d0 = Some 1 then strip_s i else i)
              in Inr (res @ [\<lparr>natural = ''for '' @ str_num d0 @ '' '' @ i', precise = None,
                              date = date0\<rparr>]))
           intervals res)"

text \<open>
  Line 80, \<^verbatim>\<open>word.match(/\bnext\b/)\<close>: an occurrence of \<^verbatim>\<open>next\<close> with no word character
  right before it and none right after it. The first argument of \<open>next_from\<close> says whether
  the character before the position is a word character.
\<close>

fun next_from :: "bool \<Rightarrow> string \<Rightarrow> bool" where
  "next_from prev_word [] = False"
| "next_from prev_word (c # cs) =
     ((\<not> prev_word \<and> startsWith (c # cs) ''next''
       \<and> (case drop 4 (c # cs) of [] \<Rightarrow> True | x # _ \<Rightarrow> \<not> is_word_char x))
      \<or> next_from (is_word_char c) cs)"

definition hasNext :: "string \<Rightarrow> bool" where
  "hasNext w = next_from False w"

text \<open>
  Line 81, \<^verbatim>\<open>word.replace(/\s*next\s*/, '')\<close>: the leftmost match only, which starts at
  the first position where the white space from there on is followed by \<^verbatim>\<open>next\<close>.
\<close>

fun remove_next :: "string \<Rightarrow> string" where
  "remove_next [] = []"
| "remove_next (c # cs) =
     (let r = dropWhile is_space (c # cs)
      in if startsWith r ''next'' then dropWhile is_space (drop 4 r)
         else c # remove_next cs)"

definition weekday_names :: "string list" where
  "weekday_names =
     [''monday'', ''tuesday'', ''wednesday'', ''thursday'', ''friday'', ''saturday'', ''sunday'']"

text \<open>The phrase of line 86 for the weekday \<open>d\<close>.\<close>

definition weekday_phrase :: "locals \<Rightarrow> string \<Rightarrow> string" where
  "weekday_phrase st d =
     (if hasNext (word st) then ''next '' else []) @ '' '' @ d @ '' ''
     @ or_str (time st) (guessTime (nth_opt (digits st) 0))"

text \<open>Lines 80 to 89.\<close>

definition rule_weekday ::
  "'d engine \<Rightarrow> locals \<Rightarrow> 'd TimeSuggestion list \<Rightarrow> error + 'd TimeSuggestion list" where
  "rule_weekday E st res =
     (let withoutNext = remove_next (word st);
          days = filter (\<lambda>d. length withoutNext \<noteq> 0 \<and> startsWith d withoutNext) weekday_names
      in for_each
           (\<lambda>d res.
              let date0 = Date_create E (weekday_phrase st d);
                  date1 = (if isPast E date0 \<and> isToday E date0 then addDays E date0 7 else date0)
              in andThen (format E date1 ''{Weekday} at {h} {tt}'')
                   (\<lambda>f. Inr (res
                      @ [\<lparr>natural = (if hasNext (word st) then ''next'' else ''on'') @ '' '' @ f,
                          precise = None, date = date1\<rparr>])))
           days res)"

text \<open>
  Lines 92 to 99. Line 97 formats the concise time, when a time or a second digit was
  given, before line 98 formats the month and the day.
\<close>

definition month_names :: "string list" where
  "month_names =
     [''january'', ''february'', ''march'', ''april'', ''may'', ''june'', ''july'', ''august'',
      ''september'', ''october'', ''november'', ''december'']"

text \<open>The phrase of line 96 for the month \<open>m\<close>.\<close>

definition month_phrase :: "locals \<Rightarrow> string \<Rightarrow> string" where
  "month_phrase st m =
     m @ '' ''
     @ (if truthy_num (dayOfMonth st) then str_num (dayOfMonth st)
        else if truthy_num (nth_opt (digits st) 0) then str_num (nth_opt (digits st) 0)
        else ''1'')
     @ '' '' @ or_str (time st) (guessTime (nth_opt (digits st) 1))"

text \<open>The label of lines 97 and 98 for the date \<open>d\<close>.\<close>

definition month_label :: "'d engine \<Rightarrow> locals \<Rightarrow> 'd \<Rightarrow> error + string" where
  "month_label E st d =
     andThen
       (if truthy_str (time st) \<or> truthy_num (nth_opt (digits st) 1)
        then andThen (printConciseTime E d) (\<lambda>c. Inr ('' at '' @ c))
        else Inr [])
       (\<lambda>naturalTime. andThen (format E d ''{Month} {do}'') (\<lambda>f. Inr (f @ naturalTime)))"

definition rule_month ::
  "'d engine \<Rightarrow> locals \<Rightarrow> 'd TimeSuggestion list \<Rightarrow> error + 'd TimeSuggestion list" where
  "rule_month E st res =
     (let months = filter (\<lambda>m. length (word st) \<noteq> 0 \<and> startsWith m (word st)) month_names
      in for_each
           (\<lambda>m res.
              let date0 = Date_create E (month_phrase st m)
              in andThen (month_label E st date0)
                   (\<lambda>l. Inr (res @ [\<lparr>natural = l, precise = None, date = date0\<rparr>])))
           months res)"

text \<open>Lines 103 to 112.\<close>

definition rule_today ::
  "'d engine \<Rightarrow> locals \<Rightarrow> 'd TimeSuggestion list \<Rightarrow> error + 'd TimeSuggestion list" where
  "rule_today E st res =
     (if length (word st) \<noteq> 0 \<and> (startsWith ''today'' (word st) \<or> startsWith ''tdy'' (word st))
      then (let t = or_str (time st) (guessTime (nth_opt (digits st) 0));
                date0 = Date_create E (''today '' @ t)
            in if isFuture E date0
               then andThen (printConciseTime E date0)
                      (\<lambda>c. Inr (res @ [\<lparr>natural = ''today at '' @ c, precise = None,
                                        date = date0\<rparr>]))
               else if isPast E date0 \<and> getHours E date0 < 12 \<and> \<not> truthy_str (time st)
               then (let date1 = addHours E date0 12
                     in andThen (printConciseTime E date1)
                          (\<lambda>c. Inr (res @ [\<lparr>natural = ''today at '' @ c, precise = None,
                                            date = date1\<rparr>])))
               else Inr res)
      else Inr res)"

text \<open>Lines 114 to 118.\<close>

definition rule_tomorrow ::
  "'d engine \<Rightarrow> locals \<Rightarrow> 'd TimeSuggestion list \<Rightarrow> error + 'd TimeSuggestion list" where
  "rule_tomorrow E st res =
     (if startsWith ''tomorrow'' (word st) \<or> startsWith ''tmrw'' (word st)
      then (let t = or_str (time st) (guessTime (nth_opt (digits st) 0));
                date0 = Date_create E (''tomorrow '' @ t)
            in andThen (printConciseTime E date0)
                 (\<lambda>c. Inr (res @ [\<lparr>natural = ''tomorrow at '' @ c, precise = None,
                                   date = date0\<rparr>])))
      else Inr res)"

text \<open>Lines 120 to 124.\<close>

definition rule_tonight ::
  "'d engine \<Rightarrow> locals \<Rightarrow> 'd TimeSuggestion list \<Rightarrow> error + 'd TimeSuggestion list" where
  "rule_tonight E st res =
     (if length (word st) \<noteq> 0
         \<and> (startsWith ''tonight'' (word st) \<or> startsWith ''tnight'' (word st))
      then (let d0 = nth_opt (digits st) 0;
                t = or_str (time st) (if truthy_num d0 then guessTime d0 else ''6 pm'');
                date0 = Date_create E (''today '' @ t)
            in andThen (printConciseTime E date0)
                 (\<lambda>c. Inr (res @ [\<lparr>natural = ''tonight at '' @ c, precise = None,
                                   date = date0\<rparr>])))
      else Inr res)"

text \<open>Lines 126 to 128: each suggestion in turn gets its precise label.\<close>

fun final_pass :: "'d engine \<Rightarrow> 'd TimeSuggestion list \<Rightarrow> error + 'd TimeSuggestion list" where
  "final_pass E [] = Inr []"
| "final_pass E (ts # rest) =
     andThen (printPrecise E (date ts))
       (\<lambda>p. andThen (final_pass E rest) (\<lambda>r. Inr (ts\<lparr>precise := Some p\<rparr> # r)))"

text \<open>The blocks in the order of the source, from the empty list of line 18.\<close>

definition rules :: "'d engine \<Rightarrow> locals \<Rightarrow> error + 'd TimeSuggestion list" where
  "rules E st =
     andThen (rule_bare_quantity E st []) (\<lambda>res.
     andThen (rule_bare_time E st res) (\<lambda>res.
     andThen (rule_interval E st res) (\<lambda>res.
     andThen (rule_weekday E st res) (\<lambda>res.
     andThen (rule_month E st res) (\<lambda>res.
     andThen (rule_today E st res) (\<lambda>res.
     andThen (rule_tomorrow E st res) (\<lambda>res.
     rule_tonight E st res)))))))"

text \<open>
  \<^verbatim>\<open>suggest\<close>: the list it returns, or the exception it throws.
\<close>

definition suggest :: "'d engine \<Rightarrow> string \<Rightarrow> error + 'd TimeSuggestion list" where
  "suggest E input =
     andThen (tokenize input) (\<lambda>st. andThen (rules E st) (final_pass E))"

section \<open>What the claims speak of\<close>

text \<open>
  A match is an ordinal one when the callback takes its last branch (line 39): it is no
  explicit time and it has a suffix.
\<close>

definition is_ordinal :: "rmatch \<Rightarrow> bool" where
  "is_ordinal m = (\<not> is_explicit_time m \<and> truthy_str (m_suffix m))"

text \<open>The matches of the digit pattern in the input of \<^verbatim>\<open>suggest\<close>, after line 24.\<close>

definition matches :: "string \<Rightarrow> rmatch list" where
  "matches input = fst (scan (toLowerCase (trim input)))"

text \<open>
  The candidates of an input are the suggestions the rules construct. They are what
  \<^verbatim>\<open>suggest\<close> returns with an engine whose \<^verbatim>\<open>format\<close> never throws: \<open>quiet E\<close> is the
  engine \<open>E\<close> with the empty string in place of each exception of \<^verbatim>\<open>format\<close>. No date
  depends on what \<^verbatim>\<open>format\<close> returns.
\<close>

definition quiet :: "'d engine \<Rightarrow> 'd engine" where
  "quiet E = E\<lparr>format := (\<lambda>d p. Inr (case format E d p of Inl e \<Rightarrow> [] | Inr s \<Rightarrow> s))\<rparr>"

section \<open>A notion for the proofs\<close>


section \<open>A calendar engine for the examples\<close>

text \<open>
  The examples need an engine to run on. This one is a calendar of the year 2024, which
  begins on a Monday: a date is \<open>Some m\<close>, the minute \<open>m\<close> counted from Monday 1 January
  0:00, or \<open>None\<close>, the invalid date. Its weeks begin on Sunday, as the library's do, and
  it resolves a weekday name inside the week of the current time. It reads the phrases
  listed at \<open>fx_create\<close> and returns the invalid date for every other phrase. Formatting
  the invalid date throws a \<^verbatim>\<open>TypeError\<close>. The current time is its parameter.
\<close>

definition fx_mk :: "nat \<Rightarrow> nat option" where
  "fx_mk m = (if m < 366 * 1440 then Some m else None)"

fun split_words :: "string \<Rightarrow> string \<Rightarrow> string list" where
  "split_words w [] = (if w = [] then [] else [w])"
| "split_words w (c # cs) =
     (if c = CHR '' ''
      then (if w = [] then split_words [] cs else w # split_words [] cs)
      else split_words (w @ [c]) cs)"

fun fx_index :: "string \<Rightarrow> string list \<Rightarrow> nat option" where
  "fx_index x [] = None"
| "fx_index x (y # ys) = (if x = y then Some 0 else map_option Suc (fx_index x ys))"

definition fx_number :: "string \<Rightarrow> nat option" where
  "fx_number s = (if s \<noteq> [] \<and> list_all is_digit s then Some (parseInt s) else None)"

text \<open>A clock time \<^verbatim>\<open>h am\<close>, \<^verbatim>\<open>h pm\<close>, \<^verbatim>\<open>h:mm am\<close> or \<^verbatim>\<open>h:mm pm\<close>: the minute of the day.\<close>

definition fx_clock :: "string \<Rightarrow> string \<Rightarrow> nat option" where
  "fx_clock h ap =
     (let hh = takeWhile (\<lambda>c. c \<noteq> CHR '':'') h;
          mm = dropWhile (\<lambda>c. c \<noteq> CHR '':'') h
      in case (fx_number hh, if mm = [] then Some 0 else fx_number (drop 1 mm)) of
           (Some x, Some y) \<Rightarrow>
             if 1 \<le> x \<and> x \<le> 12 \<and> y < 60 \<and> (mm = [] \<or> length mm = 3)
                \<and> (ap = ''am'' \<or> ap = ''pm'')
             then Some ((x mod 12 + (if ap = ''pm'' then 12 else 0)) * 60 + y)
             else None
         | _ \<Rightarrow> None)"

text \<open>
  The weekday names from Sunday, and the day on which the week of the current time began:
  day 0 is a Monday, so day \<open>k\<close> is the weekday \<open>(k + 1) mod 7\<close> counted from Sunday. The first
  days of January, whose week began in the year before, have no such day here.
\<close>

definition fx_week :: "string list" where
  "fx_week =
     [''sunday'', ''monday'', ''tuesday'', ''wednesday'', ''thursday'', ''friday'', ''saturday'']"

definition fx_week_start :: "nat \<Rightarrow> nat option" where
  "fx_week_start now =
     (let today = now div 1440; dow = (today + 1) mod 7
      in if dow \<le> today then Some (today - dow) else None)"

text \<open>A day: \<^verbatim>\<open>today\<close>, \<^verbatim>\<open>tomorrow\<close>, or a weekday of the current week.\<close>

definition fx_day :: "nat \<Rightarrow> string \<Rightarrow> nat option" where
  "fx_day now d =
     (if d = ''today'' then Some (now div 1440)
      else if d = ''tomorrow'' then Some (now div 1440 + 1)
      else (case (fx_week_start now, fx_index d fx_week) of
              (Some s, Some i) \<Rightarrow> Some (s + i)
            | _ \<Rightarrow> None))"

definition fx_month_lengths :: "nat list" where
  "fx_month_lengths = [31, 29, 31, 30, 31, 30, 31, 31, 30, 31, 30, 31]"

definition fx_unit :: "string \<Rightarrow> nat option" where
  "fx_unit u =
     (if u = ''minutes'' then Some 1 else if u = ''hours'' then Some 60
      else if u = ''days'' then Some 1440 else if u = ''weeks'' then Some 10080 else None)"

text \<open>
  The phrases it reads: a clock time (today); a day and a clock time; \<^verbatim>\<open>next\<close>, a weekday
  and a clock time (the week after the current one); a month, a day of the month and a
  clock time; \<^verbatim>\<open>in\<close>, a number and one of minutes, hours, days, weeks.
\<close>

definition fx_create :: "nat \<Rightarrow> string \<Rightarrow> nat option" where
  "fx_create now p =
     (case split_words [] p of
        [h, ap] \<Rightarrow>
          (case fx_clock h ap of Some c \<Rightarrow> fx_mk ((now div 1440) * 1440 + c) | None \<Rightarrow> None)
      | [a, b, c] \<Rightarrow>
          if a = ''in''
          then (case (fx_number b, fx_unit c) of
                  (Some n, Some u) \<Rightarrow> fx_mk (now + n * u)
                | _ \<Rightarrow> None)
          else (case (fx_day now a, fx_clock b c) of
                  (Some d, Some t) \<Rightarrow> fx_mk (d * 1440 + t)
                | _ \<Rightarrow> None)
      | [a, b, c, d] \<Rightarrow>
          if a = ''next''
          then (case (fx_week_start now, fx_index b fx_week, fx_clock c d) of
                  (Some s, Some i, Some t) \<Rightarrow> fx_mk ((s + 7 + i) * 1440 + t)
                | _ \<Rightarrow> None)
          else (case (fx_index a month_names, fx_number b, fx_clock c d) of
                  (Some i, Some n, Some t) \<Rightarrow>
                    if 1 \<le> n \<and> n \<le> fx_month_lengths ! i
                    then fx_mk ((sum_list (take i fx_month_lengths) + n - 1) * 1440 + t)
                    else None
                | _ \<Rightarrow> None)
      | _ \<Rightarrow> None)"

text \<open>The month (from 0) and the day of the month (from 1) of a day of the year.\<close>

fun fx_month_day :: "nat \<Rightarrow> nat list \<Rightarrow> nat \<Rightarrow> nat \<times> nat" where
  "fx_month_day k [] i = (i, k + 1)"
| "fx_month_day k (l # ls) i = (if k < l then (i, k + 1) else fx_month_day (k - l) ls (i + 1))"

definition fx_ordinal :: "nat \<Rightarrow> string" where
  "fx_ordinal n =
     (if n mod 100 div 10 = 1 then ''th''
      else if n mod 10 = 1 then ''st'' else if n mod 10 = 2 then ''nd''
      else if n mod 10 = 3 then ''rd'' else ''th'')"

definition fx_Weekdays :: "string list" where
  "fx_Weekdays =
     [''Monday'', ''Tuesday'', ''Wednesday'', ''Thursday'', ''Friday'', ''Saturday'', ''Sunday'']"

definition fx_Months :: "string list" where
  "fx_Months =
     [''January'', ''February'', ''March'', ''April'', ''May'', ''June'', ''July'', ''August'',
      ''September'', ''October'', ''November'', ''December'']"

text \<open>One token of a format pattern; a token it does not know stands as it is.\<close>

definition fx_token :: "nat \<Rightarrow> string \<Rightarrow> string" where
  "fx_token m t =
     (let h24 = (m div 60) mod 24;
          day = m div 1440;
          (mon, dom) = fx_month_day day fx_month_lengths 0
      in if t = ''h'' then show_nat (if h24 mod 12 = 0 then 12 else h24 mod 12)
         else if t = ''mm'' then show_nat (m mod 60 div 10) @ show_nat (m mod 10)
         else if t = ''tt'' then (if h24 < 12 then ''am'' else ''pm'')
         else if t = ''Weekday'' then fx_Weekdays ! (day mod 7)
         else if t = ''Dow'' then take 3 (fx_Weekdays ! (day mod 7))
         else if t = ''Month'' then fx_Months ! mon
         else if t = ''Mon'' then take 3 (fx_Months ! mon)
         else if t = ''d'' then show_nat dom
         else if t = ''do'' then show_nat dom @ fx_ordinal dom
         else ''{'' @ t @ ''}'')"

text \<open>
  A pattern with its tokens \<^verbatim>\<open>{...}\<close> replaced. The second argument is the token being
  read, if the position is inside braces.
\<close>

fun fx_expand :: "nat \<Rightarrow> string option \<Rightarrow> string \<Rightarrow> string" where
  "fx_expand m None [] = []"
| "fx_expand m (Some t) [] = CHR ''{'' # t"
| "fx_expand m None (c # cs) =
     (if c = CHR ''{'' then fx_expand m (Some []) cs else c # fx_expand m None cs)"
| "fx_expand m (Some t) (c # cs) =
     (if c = CHR ''}'' then fx_token m t @ fx_expand m None cs
      else fx_expand m (Some (t @ [c])) cs)"

definition fx_engine :: "nat \<Rightarrow> (nat option) engine" where
  "fx_engine now =
     \<lparr>Date_create = fx_create now,
      isPast = (\<lambda>d. case d of None \<Rightarrow> False | Some m \<Rightarrow> m < now),
      isFuture = (\<lambda>d. case d of None \<Rightarrow> False | Some m \<Rightarrow> now < m),
      isToday = (\<lambda>d. case d of None \<Rightarrow> False | Some m \<Rightarrow> m div 1440 = now div 1440),
      addHours = (\<lambda>d n. case d of None \<Rightarrow> None | Some m \<Rightarrow> fx_mk (m + 60 * n)),
      addDays = (\<lambda>d n. case d of None \<Rightarrow> None | Some m \<Rightarrow> fx_mk (m + 1440 * n)),
      getHours = (\<lambda>d. case d of None \<Rightarrow> 0 | Some m \<Rightarrow> (m div 60) mod 24),
      getMinutes = (\<lambda>d. case d of None \<Rightarrow> 0 | Some m \<Rightarrow> m mod 60),
      format = (\<lambda>d p. case d of None \<Rightarrow> Inl TypeError | Some m \<Rightarrow> Inr (fx_expand m None p))\<rparr>"

text \<open>Wednesday 10 January, 10:00 and 16:00.\<close>

definition wed_morning :: nat where
  "wed_morning = 9 * 1440 + 10 * 60"

definition wed_afternoon :: nat where
  "wed_afternoon = 9 * 1440 + 16 * 60"

section \<open>Lemmas on the tokenizer\<close>

lemmas string_defs =
  toLowerCase_def toLowerCase_char_def upper_chars_def lower_chars_def trim_def startsWith_def
  is_digit_def is_space_def parseInt_def digit_value_def

lemmas tokenize_defs =
  tokenize_def match_at_def match_min_def match_suffix_def suffixes_def callback_def
  is_explicit_time_def explicit_time_def truthy_str_def suffix_matches_ap_def repeat_def Let_def

lemmas rule_defs =
  rules_def rule_bare_quantity_def rule_bare_time_def rule_interval_def rule_weekday_def
  rule_month_def rule_today_def rule_tomorrow_def rule_tonight_def interval_units_def
  weekday_names_def month_names_def truthy_num_def nth_opt_def or_str_def hasNext_def

lemma match_at_None: "\<not> is_digit c \<Longrightarrow> match_at (c # cs) = None"
  by (simp add: match_at_def)

lemma match_at_Some: "is_digit c \<Longrightarrow> \<exists>m rest. match_at (c # cs) = Some (m, rest)"
  by (simp add: match_at_def Let_def split: prod.split)

lemma match_at_digit: "match_at (c # cs) = None \<Longrightarrow> \<not> is_digit c"
  using match_at_Some [of c cs] by auto

text \<open>Every digit of the input lies inside a match: none is left in the residue.\<close>

lemma scan_no_digit: "c \<in> set (snd (scan s)) \<Longrightarrow> \<not> is_digit c"
proof (induction s rule: scan.induct)
  case 1
  then show ?case by simp
next
  case (2 x xs)
  show ?case
  proof (cases "match_at (x # xs)")
    case None
    with 2 show ?thesis
      by (auto simp: match_at_digit split: prod.splits)
  next
    case (Some a)
    with 2 show ?thesis
      by (cases a) (auto split: prod.splits)
  qed
qed

lemma scan_without_digits: "\<forall>c \<in> set s. \<not> is_digit c \<Longrightarrow> scan s = ([], s)"
  by (induction s) (simp_all add: match_at_None)

lemma set_trim: "set (trim s) \<subseteq> set s"
proof -
  have "set (dropWhile is_space (rev (dropWhile is_space s))) \<subseteq> set (rev (dropWhile is_space s))"
    by (rule set_dropWhileD [THEN subsetI])
  also have "\<dots> \<subseteq> set s"
    using set_dropWhileD [of _ is_space s] by auto
  finally show ?thesis by (simp add: trim_def)
qed

lemma set_strip_at: "set (strip_at s) \<subseteq> set s"
proof (induction s)
  case Nil
  then show ?case by simp
next
  case (Cons c cs)
  have "set (drop k (dropWhile is_space cs)) \<subseteq> set cs" for k
    using set_drop_subset [of k "dropWhile is_space cs"] set_dropWhileD [of _ is_space cs] by auto
  with Cons show ?case by (auto simp: Let_def)
qed

lemma tokenize_word:
  assumes "tokenize input = Inr st"
  shows "word st = strip_at (trim (snd (scan (toLowerCase (trim input)))))"
  using assms by (auto simp: tokenize_def Let_def split: prod.splits sum.splits)

lemma callback_time:
  "callback st m = Inr st' \<Longrightarrow>
     (if is_explicit_time m then \<exists>t. explicit_time m = Inr t \<and> time st' = Some t
      else time st' = time st)"
  by (auto simp: callback_def split: sum.splits if_splits)

lemma callback_dayOfMonth:
  "callback st m = Inr st' \<Longrightarrow>
     dayOfMonth st' = (if is_ordinal m then Some (parseInt (m_num m)) else dayOfMonth st)"
  by (auto simp: callback_def is_ordinal_def split: sum.splits if_splits)

text \<open>Each assignment to \<^verbatim>\<open>time\<close> overwrites the one before.\<close>

lemma run_callback_time:
  "run_callback st ms = Inr st' \<Longrightarrow>
     (if filter is_explicit_time ms = [] then time st' = time st
      else \<exists>t. explicit_time (last (filter is_explicit_time ms)) = Inr t \<and> time st' = Some t)"
proof (induction ms arbitrary: st)
  case Nil
  then show ?case by simp
next
  case (Cons m ms)
  from Cons.prems obtain st1 where c: "callback st m = Inr st1"
    and r: "run_callback st1 ms = Inr st'"
    by (auto split: sum.splits)
  note ih = Cons.IH [OF r]
  note ct = callback_time [OF c]
  show ?case
  proof (cases "filter is_explicit_time ms = []")
    case True
    with ih ct show ?thesis by (auto split: if_splits)
  next
    case False
    with ih show ?thesis by (auto split: if_splits)
  qed
qed

lemma run_callback_dayOfMonth:
  "run_callback st ms = Inr st' \<Longrightarrow>
     dayOfMonth st' =
       (if filter is_ordinal ms = [] then dayOfMonth st
        else Some (parseInt (m_num (last (filter is_ordinal ms)))))"
proof (induction ms arbitrary: st)
  case Nil
  then show ?case by simp
next
  case (Cons m ms)
  from Cons.prems obtain st1 where c: "callback st m = Inr st1"
    and r: "run_callback st1 ms = Inr st'"
    by (auto split: sum.splits)
  note ih = Cons.IH [OF r]
  note cd = callback_dayOfMonth [OF c]
  show ?case
  proof (cases "filter is_ordinal ms = []")
    case True
    with ih cd show ?thesis by (auto split: if_splits)
  next
    case False
    with ih show ?thesis by (auto split: if_splits)
  qed
qed

lemma tokenize_run:
  assumes "tokenize input = Inr st"
  shows "\<exists>st'. run_callback \<lparr>time = None, dayOfMonth = None, digits = [], word = []\<rparr>
                  (matches input) = Inr st'
           \<and> time st = time st' \<and> dayOfMonth st = dayOfMonth st' \<and> digits st = digits st'"
  using assms by (auto simp: tokenize_def matches_def Let_def split: prod.splits sum.splits)

section \<open>When the tokenizer returns\<close>

text \<open>
  The tokenizer returns whenever no minute group, separator included, is longer than
  three characters.
\<close>

lemma length_replace_dot: "length (replace_dot s) = length s"
  by (induction s) simp_all

lemma explicit_time_returns:
  "(case m_min m of None \<Rightarrow> True | Some x \<Rightarrow> length x \<le> 3) \<Longrightarrow> \<exists>t. explicit_time m = Inr t"
  by (auto simp: explicit_time_def repeat_def truthy_str_def length_replace_dot Let_def
      split: option.splits)

lemma callback_returns:
  "(case m_min m of None \<Rightarrow> True | Some x \<Rightarrow> length x \<le> 3) \<Longrightarrow> \<exists>st'. callback st m = Inr st'"
  using explicit_time_returns [of m] by (auto simp: callback_def)

lemma run_callback_returns:
  "\<forall>m \<in> set ms. (case m_min m of None \<Rightarrow> True | Some x \<Rightarrow> length x \<le> 3) \<Longrightarrow>
     \<exists>st'. run_callback st ms = Inr st'"
proof (induction ms arbitrary: st)
  case Nil
  then show ?case by simp
next
  case (Cons m ms)
  then obtain st1 where "callback st m = Inr st1"
    using callback_returns [of m st] by auto
  with Cons show ?case by simp
qed

lemma tokenize_returns:
  assumes "\<forall>m \<in> set (matches input). (case m_min m of None \<Rightarrow> True | Some x \<Rightarrow> length x \<le> 3)"
  shows "\<exists>st. tokenize input = Inr st"
proof -
  from run_callback_returns [OF assms]
  obtain st' where "run_callback \<lparr>time = None, dayOfMonth = None, digits = [], word = []\<rparr>
      (matches input) = Inr st'"
    by blast
  then show ?thesis
    by (auto simp: tokenize_def matches_def Let_def split: prod.splits)
qed

text \<open>An input that is one digit run.\<close>

lemma digit_not_space: "is_digit c \<Longrightarrow> \<not> is_space c"
  by (auto simp: is_digit_def is_space_def)

lemma digit_not_upper: "is_digit c \<Longrightarrow> c \<notin> set upper_chars"
  apply (simp add: is_digit_def upper_chars_def)
  apply (elim disjE; simp)
  done

lemma digit_lower: "is_digit c \<Longrightarrow> toLowerCase_char c = c"
proof -
  assume "is_digit c"
  then have "c \<notin> set upper_chars" by (rule digit_not_upper)
  moreover have "length upper_chars = length lower_chars"
    by (simp add: upper_chars_def lower_chars_def)
  ultimately have "map_of (zip upper_chars lower_chars) c = None"
    by (simp add: map_of_zip_is_None)
  then show ?thesis by (simp add: toLowerCase_char_def)
qed

lemma dropWhile_hd: "xs \<noteq> [] \<Longrightarrow> \<not> P (hd xs) \<Longrightarrow> dropWhile P xs = xs"
  by (cases xs) simp_all

lemma trim_digits:
  assumes "s \<noteq> []" and "list_all is_digit s"
  shows "trim s = s"
proof -
  from assms have "\<not> is_space (hd s)" "\<not> is_space (last s)"
    by (simp_all add: list_all_iff digit_not_space)
  with assms(1) have "dropWhile is_space s = s" "dropWhile is_space (rev s) = rev s"
    by (simp_all add: dropWhile_hd hd_rev)
  then show ?thesis by (simp add: trim_def)
qed

lemma tokenize_digits:
  assumes "s \<noteq> []" and "list_all is_digit s"
  shows "tokenize s = Inr \<lparr>time = None, dayOfMonth = None, digits = [parseInt s], word = []\<rparr>"
proof -
  from assms(2) have l: "toLowerCase s = s"
    by (simp add: toLowerCase_def list_all_iff digit_lower map_idI)
  from assms(2) have tw: "takeWhile is_digit s = s" "dropWhile is_digit s = []"
    by (simp_all add: list_all_iff)
  obtain c cs where s: "s = c # cs" using assms(1) by (cases s) auto
  have "match_at s = Some (\<lparr>m_num = s, m_min = None, m_suffix = None\<rparr>, [])"
    unfolding match_at_def tw Let_def using assms(1)
    by (simp add: match_min_def match_suffix_def suffixes_def startsWith_def)
  then have "scan s = ([\<lparr>m_num = s, m_min = None, m_suffix = None\<rparr>], [])"
    by (simp add: s)
  then have sc: "scan (toLowerCase (trim s)) = ([\<lparr>m_num = s, m_min = None, m_suffix = None\<rparr>], [])"
    by (simp add: trim_digits [OF assms] l)
  have rc: "run_callback \<lparr>time = None, dayOfMonth = None, digits = [], word = []\<rparr>
              [\<lparr>m_num = s, m_min = None, m_suffix = None\<rparr>] =
            Inr \<lparr>time = None, dayOfMonth = None, digits = [parseInt s], word = []\<rparr>"
    by (simp add: callback_def is_explicit_time_def truthy_str_def)
  have "strip_at (trim []) = []"
    by (simp add: trim_def)
  then show ?thesis
    unfolding tokenize_def Let_def sc by (simp only: rc prod.case sum.case) simp
qed

section \<open>Lemmas on the rules\<close>

lemma andThen_Inr [simp]: "andThen (Inr x) f = f x"
  by (simp add: andThen_def)

lemma andThen_Inl [simp]: "andThen (Inl e) f = Inl e"
  by (simp add: andThen_def)

lemma andThen_eq_Inr: "andThen m f = Inr y \<longleftrightarrow> (\<exists>x. m = Inr x \<and> f x = Inr y)"
  by (cases m) simp_all



lemma quiet_simps [simp]:
  "Date_create (quiet E) = Date_create E" "isPast (quiet E) = isPast E"
  "isFuture (quiet E) = isFuture E" "isToday (quiet E) = isToday E"
  "addHours (quiet E) = addHours E" "addDays (quiet E) = addDays E"
  "getHours (quiet E) = getHours E" "getMinutes (quiet E) = getMinutes E"
  by (simp_all add: quiet_def)















lemma final_pass_returns:
  "final_pass E xs = Inr res \<Longrightarrow>
     map date res = map date xs \<and> map natural res = map natural xs
     \<and> (\<forall>s \<in> set res. \<exists>p. printPrecise E (date s) = Inr p \<and> precise s = Some p)"
proof (induction xs arbitrary: res)
  case Nil
  then show ?case by simp
next
  case (Cons x xs)
  from Cons.prems obtain p r where p: "printPrecise E (date x) = Inr p"
    and r: "final_pass E xs = Inr r" and res: "res = x\<lparr>precise := Some p\<rparr> # r"
    by (auto simp: andThen_eq_Inr)
  from Cons.IH [OF r] p res show ?case by simp
qed


lemma final_pass_raises:
  "d \<in> date ` set xs \<Longrightarrow> printPrecise E d = Inl e \<Longrightarrow> \<exists>e'. final_pass E xs = Inl e'"
proof (induction xs)
  case Nil
  then show ?case by simp
next
  case (Cons x xs)
  show ?case
  proof (cases "final_pass E (x # xs)")
    case (Inl a)
    then show ?thesis by blast
  next
    case (Inr res)
    from final_pass_returns [OF Inr] Cons.prems show ?thesis
      by (metis Inl_Inr_False image_set list.set_map imageE)
  qed
qed


text \<open>With an empty word only the two bare rules and the tomorrow rule can fire.\<close>

lemma rules_empty_word:
  assumes "word st = []"
  shows "rule_interval E st res = Inr res" and "rule_weekday E st res = Inr res"
    and "rule_month E st res = Inr res" and "rule_today E st res = Inr res"
    and "rule_tonight E st res = Inr res"
  using assms
  by (simp_all add: rule_interval_def rule_weekday_def rule_month_def rule_today_def
      rule_tonight_def)

lemma suggest_precise:
  assumes "suggest E input = Inr res" and "s \<in> set res"
  shows "\<exists>p. printPrecise E (date s) = Inr p \<and> precise s = Some p"
proof -
  from assms(1) obtain r where "final_pass E r = Inr res"
    by (auto simp: suggest_def andThen_eq_Inr)
  from final_pass_returns [OF this] assms(2) show ?thesis by blast
qed

text \<open>
  For a digit run whose value is not zero the two bare rules do fire.
\<close>

lemma bare_rules_fire_for_nonzero:
  assumes "s \<noteq> []" and "list_all is_digit s" and "parseInt s = n" and "n \<noteq> 0"
  shows "\<exists>st. tokenize s = Inr st
           \<and> rule_bare_quantity E st [] =
               Inr [\<lparr>natural = ''for '' @ show_nat n @ '' hour'' @ (if n \<noteq> 1 then ''s'' else []),
                     precise = None, date = Date_create E (''in '' @ show_nat n @ '' hours'')\<rparr>,
                    \<lparr>natural = ''for '' @ show_nat n @ '' day'' @ (if n \<noteq> 1 then ''s'' else []),
                     precise = None, date = Date_create E (''in '' @ show_nat n @ '' days'')\<rparr>]
           \<and> (24 \<le> n \<longrightarrow> rule_bare_time E st res = Inr res)
           \<and> (n < 24 \<longrightarrow>
                (let date0 = Date_create E (guessTime (Some n));
                     date1 = (if isPast E date0 then addHours E date0 24 else date0)
                 in rule_bare_time E st res =
                      andThen (printConciseTime E date1)
                        (\<lambda>c. Inr (res @ [\<lparr>natural = (if isToday E date1 then ''today'' else ''tomorrow'')
                                                      @ '', '' @ c,
                                          precise = None, date = date1\<rparr>]))))"
  using assms(3,4)
  by (simp add: tokenize_digits [OF assms(1,2)] rule_bare_quantity_def rule_bare_time_def
      nth_opt_def truthy_num_def truthy_str_def str_num_def plural_def or_str_def Let_def)

section \<open>Running the example engine\<close>

lemmas fx_defs =
  fx_engine_def fx_create_def fx_clock_def fx_day_def fx_number_def fx_unit_def fx_mk_def
  fx_week_def fx_week_start_def
  fx_token_def fx_ordinal_def fx_Weekdays_def fx_Months_def fx_month_lengths_def
  wed_morning_def wed_afternoon_def show_nat.simps printConciseTime_def printPrecise_def
  str_num_def plural_def strip_s_def guessTime_def weekday_phrase_def month_phrase_def
  month_label_def

section \<open>The claims\<close>

text \<open>
  C1. \<^verbatim>\<open>suggest\<close> is to return a list for every input string and never raise. On the
  input "1:234" the minute group is ":234", four characters long, so line 31 calls
  \<^verbatim>\<open>'0'.repeat(-1)\<close> and \<^verbatim>\<open>suggest\<close> ends with a \<^verbatim>\<open>RangeError\<close>, whatever the engine.
\<close>

theorem suggest_raises_on_long_minutes:
  "matches ''1:234'' = [\<lparr>m_num = ''1'', m_min = Some '':234'', m_suffix = None\<rparr>]
   \<and> explicit_time \<lparr>m_num = ''1'', m_min = Some '':234'', m_suffix = None\<rparr> = Inl RangeError
   \<and> suggest E ''1:234'' = Inl RangeError"
  by (simp add: suggest_def matches_def tokenize_defs string_defs)

text \<open>
  C2. On an input that is one digit run and nothing else, the bare-quantity rule is to
  fire, and the bare-time rule too when the number is below 24, the number 0 included.
  On the input "0" the tokenizer gives the one ambiguous digit 0, an empty word and no
  time, and neither rule fires: the tests \<^verbatim>\<open>digits[0] && ...\<close> of lines 57 and 63 read the
  number 0 as false. \<^verbatim>\<open>suggest\<close> does what the tomorrow rule and the final pass do on the
  date of "tomorrow 8 am", and no more.
\<close>

theorem bare_rules_skip_zero:
  "tokenize ''0'' = Inr \<lparr>time = None, dayOfMonth = None, digits = [0], word = []\<rparr>
   \<and> rule_bare_quantity E \<lparr>time = None, dayOfMonth = None, digits = [0], word = []\<rparr> res = Inr res
   \<and> rule_bare_time E \<lparr>time = None, dayOfMonth = None, digits = [0], word = []\<rparr> res = Inr res
   \<and> suggest E ''0'' =
       andThen (printConciseTime E (Date_create E ''tomorrow 8 am''))
         (\<lambda>c. andThen (printPrecise E (Date_create E ''tomorrow 8 am''))
           (\<lambda>p. Inr [\<lparr>natural = ''tomorrow at '' @ c, precise = Some p,
                       date = Date_create E ''tomorrow 8 am''\<rparr>]))"
proof -
  have t: "tokenize ''0'' = Inr \<lparr>time = None, dayOfMonth = None, digits = [0], word = []\<rparr>"
    by (simp add: tokenize_defs string_defs)
  show ?thesis
    by (cases "printConciseTime E (Date_create E ''tomorrow 8 am'')")
      (simp_all add: t suggest_def rule_defs guessTime_def truthy_str_def startsWith_def Let_def)
qed

text \<open>
  C3, as it is stated, fails. It has the tokenizer produce the time "300 pm" for the
  input "3pm". The minutes are padded only when a minute group was matched (line 29); the
  input "3pm" has none, and the time is "3 pm".
\<close>

theorem explicit_time_3pm_counterexample:
  "tokenize ''3pm'' = Inr \<lparr>time = Some ''3 pm'', dayOfMonth = None, digits = [], word = []\<rparr>
   \<and> tokenize ''3pm'' \<noteq> Inr \<lparr>time = Some ''300 pm'', dayOfMonth = None, digits = [], word = []\<rparr>"
  by (simp add: tokenize_defs string_defs)

text \<open>
  C3, amended. For the input "3pm" the tokenizer produces an empty residual word and the
  time "3 pm", and \<^verbatim>\<open>suggest\<close> returns two suggestions, that of the bare-time rule and
  that of the tomorrow rule. Let the engine read "3 pm" as an instant of today with the
  minutes zero that it formats as "3 pm", let that instant 24 hours on be formatted the
  same and not be today, and let it format the precise labels and the time of "tomorrow
  3 pm". Then the first suggestion is labeled "today, 3 pm" when the instant is not past,
  and "tomorrow, 3 pm", dated 24 hours on, when it is past.
\<close>

theorem suggest_3pm:
  assumes "d0 = Date_create E ''3 pm''" and "d1 = addHours E d0 24"
    and "getMinutes E d0 = 0" and "format E d0 ''{h} {tt}'' = Inr ''3 pm''"
    and "getMinutes E d1 = 0" and "format E d1 ''{h} {tt}'' = Inr ''3 pm''"
    and "isToday E d0" and "\<not> isToday E d1"
    and "printPrecise E (if isPast E d0 then d1 else d0) = Inr p1"
    and "d2 = Date_create E ''tomorrow 3 pm''"
    and "printConciseTime E d2 = Inr c2" and "printPrecise E d2 = Inr p2"
  shows "tokenize ''3pm'' = Inr \<lparr>time = Some ''3 pm'', dayOfMonth = None, digits = [], word = []\<rparr>
     \<and> rule_bare_time E \<lparr>time = Some ''3 pm'', dayOfMonth = None, digits = [], word = []\<rparr> [] =
         Inr [\<lparr>natural = (if isPast E d0 then ''tomorrow, 3 pm'' else ''today, 3 pm''),
               precise = None, date = (if isPast E d0 then d1 else d0)\<rparr>]
     \<and> suggest E ''3pm'' =
         Inr [\<lparr>natural = (if isPast E d0 then ''tomorrow, 3 pm'' else ''today, 3 pm''),
               precise = Some p1, date = (if isPast E d0 then d1 else d0)\<rparr>,
              \<lparr>natural = ''tomorrow at '' @ c2, precise = Some p2, date = d2\<rparr>]"
proof -
  have t: "tokenize ''3pm'' = Inr \<lparr>time = Some ''3 pm'', dayOfMonth = None, digits = [], word = []\<rparr>"
    by (simp add: tokenize_defs string_defs)
  have q: "rule_bare_quantity E \<lparr>time = Some ''3 pm'', dayOfMonth = None, digits = [], word = []\<rparr> [] = Inr []"
    by (simp add: rule_bare_quantity_def nth_opt_def truthy_num_def)
  have b: "rule_bare_time E \<lparr>time = Some ''3 pm'', dayOfMonth = None, digits = [], word = []\<rparr> [] =
      Inr [\<lparr>natural = (if isPast E d0 then ''tomorrow, 3 pm'' else ''today, 3 pm''),
        precise = None, date = (if isPast E d0 then d1 else d0)\<rparr>]"
    using assms(1-8)
    by (simp add: rule_bare_time_def truthy_str_def or_str_def printConciseTime_def Let_def)
  have m: "rule_tomorrow E \<lparr>time = Some ''3 pm'', dayOfMonth = None, digits = [], word = []\<rparr> res =
      Inr (res @ [\<lparr>natural = ''tomorrow at '' @ c2, precise = None, date = d2\<rparr>])" for res
    using assms(10,11)
    by (simp add: rule_tomorrow_def startsWith_def or_str_def Let_def)
  have "suggest E ''3pm'' =
         Inr [\<lparr>natural = (if isPast E d0 then ''tomorrow, 3 pm'' else ''today, 3 pm''),
               precise = Some p1, date = (if isPast E d0 then d1 else d0)\<rparr>,
              \<lparr>natural = ''tomorrow at '' @ c2, precise = Some p2, date = d2\<rparr>]"
    using assms(9,12)
    by (simp add: t suggest_def rules_def rules_empty_word q b m)
  with t b show ?thesis by simp
qed

theorem suggest_3pm_witness:
  "suggest (fx_engine wed_morning) ''3pm'' =
     Inr [\<lparr>natural = ''today, 3 pm'', precise = Some ''Wed, Jan 10 at 3 pm'', date = Some 13860\<rparr>,
          \<lparr>natural = ''tomorrow at 3 pm'', precise = Some ''Thu, Jan 11 at 3 pm'', date = Some 15300\<rparr>]
   \<and> suggest (fx_engine wed_afternoon) ''3pm'' =
     Inr [\<lparr>natural = ''tomorrow, 3 pm'', precise = Some ''Thu, Jan 11 at 3 pm'', date = Some 15300\<rparr>,
          \<lparr>natural = ''tomorrow at 3 pm'', precise = Some ''Thu, Jan 11 at 3 pm'', date = Some 15300\<rparr>]"
proof -
  have c: "Date_create (fx_engine now) ''3 pm'' = fx_mk (now div 1440 * 1440 + 900)"
      "Date_create (fx_engine now) ''tomorrow 3 pm'' = fx_mk ((now div 1440 + 1) * 1440 + 900)" for now
    by (simp_all add: fx_engine_def fx_create_def fx_clock_def fx_day_def fx_number_def string_defs)
  have a: "Some 15300 = addHours (fx_engine now) (Some 13860) 24" for now
    by (simp add: fx_engine_def fx_mk_def)
  have f: "getMinutes (fx_engine now) (Some 13860) = 0"
      "format (fx_engine now) (Some 13860) ''{h} {tt}'' = Inr ''3 pm''"
      "getMinutes (fx_engine now) (Some 15300) = 0"
      "format (fx_engine now) (Some 15300) ''{h} {tt}'' = Inr ''3 pm''" for now
    by (simp_all add: fx_engine_def fx_token_def fx_month_lengths_def show_nat.simps)
  have p: "printPrecise (fx_engine now) (Some 13860) = Inr ''Wed, Jan 10 at 3 pm''"
      "printPrecise (fx_engine now) (Some 15300) = Inr ''Thu, Jan 11 at 3 pm''"
      "printConciseTime (fx_engine now) (Some 15300) = Inr ''3 pm''" for now
    by (simp_all add: fx_defs)
  have m: "Some 13860 = Date_create (fx_engine wed_morning) ''3 pm''"
      "Some 13860 = Date_create (fx_engine wed_afternoon) ''3 pm''"
      "Some 15300 = Date_create (fx_engine wed_morning) ''tomorrow 3 pm''"
      "Some 15300 = Date_create (fx_engine wed_afternoon) ''tomorrow 3 pm''"
    by (simp_all add: c fx_mk_def wed_morning_def wed_afternoon_def)
  have d: "isToday (fx_engine wed_morning) (Some 13860)" "\<not> isToday (fx_engine wed_morning) (Some 15300)"
      "isToday (fx_engine wed_afternoon) (Some 13860)" "\<not> isToday (fx_engine wed_afternoon) (Some 15300)"
      "\<not> isPast (fx_engine wed_morning) (Some 13860)" "isPast (fx_engine wed_afternoon) (Some 13860)"
    by (simp_all add: fx_engine_def wed_morning_def wed_afternoon_def)
  have p1: "printPrecise (fx_engine wed_morning)
        (if isPast (fx_engine wed_morning) (Some 13860) then Some 15300 else Some 13860) =
      Inr ''Wed, Jan 10 at 3 pm''"
    "printPrecise (fx_engine wed_afternoon)
        (if isPast (fx_engine wed_afternoon) (Some 13860) then Some 15300 else Some 13860) =
      Inr ''Thu, Jan 11 at 3 pm''"
    by (simp_all add: d p)
  from suggest_3pm [OF m(1) a f d(1,2) p1(1) m(3) p(3) p(2)]
       suggest_3pm [OF m(2) a f d(3,4) p1(2) m(4) p(3) p(2)]
  show ?thesis
    by (simp add: d)
qed

text \<open>
  C4. \<^verbatim>\<open>guessTime\<close> is a total function of its argument: for zero or no number it
  returns "8 am"; for a number above 12, that number less 12 and " pm"; for a number from
  1 to 7, the number and " pm"; for a number from 8 to 12, the number and " am". So
  \<^verbatim>\<open>guessTime(0)\<close> is "8 am", \<^verbatim>\<open>guessTime(15)\<close> is "3 pm", \<^verbatim>\<open>guessTime(5)\<close> is "5 pm" and
  \<^verbatim>\<open>guessTime(10)\<close> is "10 am".
\<close>

theorem guessTime_cases:
  "guessTime None = ''8 am'' \<and> guessTime (Some 0) = ''8 am''
   \<and> (12 < n \<longrightarrow> guessTime (Some n) = show_nat (n - 12) @ '' pm'')
   \<and> (0 < n \<and> n < 8 \<longrightarrow> guessTime (Some n) = show_nat n @ '' pm'')
   \<and> (8 \<le> n \<and> n \<le> 12 \<longrightarrow> guessTime (Some n) = show_nat n @ '' am'')
   \<and> guessTime (Some 15) = ''3 pm'' \<and> guessTime (Some 5) = ''5 pm''
   \<and> guessTime (Some 10) = ''10 am''"
  by (simp add: guessTime_def truthy_num_def show_nat.simps)

theorem guessTime_cases_witness:
  "guessTime (Some 23) = ''11 pm'' \<and> guessTime (Some 7) = ''7 pm''
   \<and> guessTime (Some 12) = ''12 am''"
  using guessTime_cases [of 23] guessTime_cases [of 7] guessTime_cases [of 12]
  by (simp add: show_nat.simps)

text \<open>
  C5. The instant of a weekday suggestion is never to be earlier than the current time.
  On the input "mon" the weekday rule asks the engine for " monday 8 am". When the engine
  answers with an instant that is past and not of today, as the Monday of the current
  week is on a Wednesday, line 87 does not move it, and \<^verbatim>\<open>suggest\<close> returns one suggestion,
  dated in the past: the guard of line 87 covers a past instant of today only.
\<close>

theorem weekday_suggestion_in_the_past:
  assumes "x = Date_create E '' monday 8 am''"
    and "isPast E x" and "\<not> isToday E x"
    and "format E x ''{Weekday} at {h} {tt}'' = Inr l" and "printPrecise E x = Inr p"
  shows "tokenize ''mon'' = Inr \<lparr>time = None, dayOfMonth = None, digits = [], word = ''mon''\<rparr>
     \<and> suggest E ''mon'' = Inr [\<lparr>natural = ''on '' @ l, precise = Some p, date = x\<rparr>]
     \<and> isPast E x"
proof -
  have t: "tokenize ''mon'' = Inr \<lparr>time = None, dayOfMonth = None, digits = [], word = ''mon''\<rparr>"
    by (simp add: tokenize_defs string_defs)
  have w: "rule_weekday E \<lparr>time = None, dayOfMonth = None, digits = [], word = ''mon''\<rparr> res =
      Inr (res @ [\<lparr>natural = ''on '' @ l, precise = None, date = x\<rparr>])" for res
    using assms(2-4) unfolding assms(1)
    by (simp add: rule_weekday_def weekday_names_def weekday_phrase_def hasNext_def
        is_word_char_def startsWith_def or_str_def guessTime_def nth_opt_def string_defs Let_def)
  have "suggest E ''mon'' = Inr [\<lparr>natural = ''on '' @ l, precise = Some p, date = x\<rparr>]"
    using assms(5)
    by (simp add: t suggest_def rules_def w rule_bare_quantity_def rule_bare_time_def
        rule_interval_def rule_month_def rule_today_def rule_tomorrow_def rule_tonight_def
        month_names_def interval_units_def nth_opt_def truthy_num_def truthy_str_def
        startsWith_def Let_def)
  with t assms(2) show ?thesis by simp
qed

theorem weekday_suggestion_in_the_past_witness:
  "Date_create (fx_engine wed_morning) '' monday 8 am'' = Some 10560
   \<and> isPast (fx_engine wed_morning) (Some 10560)
   \<and> \<not> isToday (fx_engine wed_morning) (Some 10560)
   \<and> suggest (fx_engine wed_morning) ''mon'' =
       Inr [\<lparr>natural = ''on Monday at 8 am'', precise = Some ''Mon, Jan 8 at 8 am'',
             date = Some 10560\<rparr>]"
proof -
  have x: "Some 10560 = Date_create (fx_engine wed_morning) '' monday 8 am''"
    by (simp add: fx_defs string_defs)
  have e: "isPast (fx_engine wed_morning) (Some 10560)"
      "\<not> isToday (fx_engine wed_morning) (Some 10560)"
      "format (fx_engine wed_morning) (Some 10560) ''{Weekday} at {h} {tt}'' = Inr ''Monday at 8 am''"
      "printPrecise (fx_engine wed_morning) (Some 10560) = Inr ''Mon, Jan 8 at 8 am''"
    by (simp_all add: fx_defs)
  from weekday_suggestion_in_the_past [OF x e] show ?thesis
    by (simp add: x [symmetric] e)
qed




text \<open>
  C7. When several digit runs qualify as an explicit time, \<^verbatim>\<open>time\<close> is the string of the
  last of them; when several carry an ordinal suffix, \<^verbatim>\<open>dayOfMonth\<close> is the value of the
  last of them. With no such run the variable stays unset. This is for an input on which
  the tokenizer returns.
\<close>

theorem last_qualifying_run_wins:
  assumes "tokenize input = Inr st"
  shows "(if filter is_explicit_time (matches input) = [] then time st = None
          else \<exists>t. explicit_time (last (filter is_explicit_time (matches input))) = Inr t
                    \<and> time st = Some t)
         \<and> dayOfMonth st =
             (if filter is_ordinal (matches input) = [] then None
              else Some (parseInt (m_num (last (filter is_ordinal (matches input))))))"
proof -
  from tokenize_run [OF assms] obtain st' where
    r: "run_callback \<lparr>time = None, dayOfMonth = None, digits = [], word = []\<rparr>
          (matches input) = Inr st'"
    and e: "time st = time st'" "dayOfMonth st = dayOfMonth st'"
    by blast
  from run_callback_time [OF r] run_callback_dayOfMonth [OF r] e show ?thesis
    by simp
qed

theorem last_qualifying_run_wins_witness:
  "tokenize ''1st 3pm 2nd 4:3'' =
     Inr \<lparr>time = Some ''4:30 pm'', dayOfMonth = Some 2, digits = [], word = []\<rparr>
   \<and> filter is_explicit_time (matches ''1st 3pm 2nd 4:3'') =
       [\<lparr>m_num = ''3'', m_min = None, m_suffix = Some ''pm''\<rparr>,
        \<lparr>m_num = ''4'', m_min = Some '':3'', m_suffix = None\<rparr>]
   \<and> explicit_time \<lparr>m_num = ''4'', m_min = Some '':3'', m_suffix = None\<rparr> = Inr ''4:30 pm''
   \<and> filter is_ordinal (matches ''1st 3pm 2nd 4:3'') =
       [\<lparr>m_num = ''1'', m_min = None, m_suffix = Some ''st''\<rparr>,
        \<lparr>m_num = ''2'', m_min = None, m_suffix = Some ''nd''\<rparr>]"
proof -
  have t: "tokenize ''1st 3pm 2nd 4:3'' =
      Inr \<lparr>time = Some ''4:30 pm'', dayOfMonth = Some 2, digits = [], word = []\<rparr>"
    by code_simp
  have m: "matches ''1st 3pm 2nd 4:3'' =
      [\<lparr>m_num = ''1'', m_min = None, m_suffix = Some ''st''\<rparr>,
       \<lparr>m_num = ''3'', m_min = None, m_suffix = Some ''pm''\<rparr>,
       \<lparr>m_num = ''2'', m_min = None, m_suffix = Some ''nd''\<rparr>,
       \<lparr>m_num = ''4'', m_min = Some '':3'', m_suffix = None\<rparr>]"
    by code_simp
  from last_qualifying_run_wins [OF t] show ?thesis
    unfolding m
    by (simp add: t is_ordinal_def is_explicit_time_def explicit_time_def truthy_str_def
        suffix_matches_ap_def startsWith_def repeat_def Let_def)
qed

text \<open>
  C8. The residual word the tokenizer produces holds no digit run: the digit pattern has
  no match in it, and replacing its matches leaves the word as it is. This is for an
  input on which the tokenizer returns, that is, produces a word.
\<close>

theorem residual_word_has_no_digits:
  assumes "tokenize input = Inr st"
  shows "scan (word st) = ([], word st)"
proof -
  have "set (word st) \<subseteq> set (snd (scan (toLowerCase (trim input))))"
    using set_strip_at set_trim unfolding tokenize_word [OF assms] by blast
  then have "\<forall>c \<in> set (word st). \<not> is_digit c"
    using scan_no_digit by blast
  then show ?thesis by (rule scan_without_digits)
qed

theorem residual_word_has_no_digits_witness:
  "tokenize ''Tue 5th at 12:3'' =
     Inr \<lparr>time = Some ''12:30 pm'', dayOfMonth = Some 5, digits = [], word = ''tue''\<rparr>
   \<and> scan ''tue'' = ([], ''tue'')"
proof -
  have t: "tokenize ''Tue 5th at 12:3'' =
      Inr \<lparr>time = Some ''12:30 pm'', dayOfMonth = Some 5, digits = [], word = ''tue''\<rparr>"
    by code_simp
  from residual_word_has_no_digits [OF t] show ?thesis
    by (simp add: t)
qed

text \<open>
  C9. Every suggestion of the list \<^verbatim>\<open>suggest\<close> returns, whichever rule made it, has its
  \<^verbatim>\<open>precise\<close> field set by the final pass to \<^verbatim>\<open>printPrecise\<close> of its date: the date
  formatted by the pattern "{Dow}, {Mon} {d} at " followed by the pattern of the concise
  time, which is "{h} {tt}" when the minutes are zero and "{h}:{mm} {tt}" otherwise.
\<close>

theorem precise_label_of_every_suggestion:
  assumes "suggest E input = Inr res" and "s \<in> set res"
  shows "(\<exists>p. precise s = Some p \<and> printPrecise E (date s) = Inr p)
         \<and> (let t = (if getMinutes E (date s) = 0 then ''{h} {tt}'' else ''{h}:{mm} {tt}'')
            in printPrecise E (date s) = format E (date s) (''{Dow}, {Mon} {d} at '' @ t)
               \<and> printConciseTime E (date s) = format E (date s) t)"
  using suggest_precise [OF assms]
  by (auto simp: printPrecise_def printConciseTime_def Let_def)

theorem precise_label_of_every_suggestion_witness:
  "suggest (fx_engine wed_morning) ''tmrw 8:15'' =
     Inr [\<lparr>natural = ''tomorrow at 8:15 pm'', precise = Some ''Thu, Jan 11 at 8:15 pm'',
           date = Some 15615\<rparr>]
   \<and> printPrecise (fx_engine wed_morning) (Some 15615) = Inr ''Thu, Jan 11 at 8:15 pm''
   \<and> printConciseTime (fx_engine wed_morning) (Some 15615) = Inr ''8:15 pm''
   \<and> getMinutes (fx_engine wed_morning) (Some 15615) = 15"
proof -
  have t: "tokenize ''tmrw 8:15'' =
      Inr \<lparr>time = Some ''8:15 pm'', dayOfMonth = None, digits = [], word = ''tmrw''\<rparr>"
    by (simp add: tokenize_defs string_defs)
  have s: "suggest (fx_engine wed_morning) ''tmrw 8:15'' =
     Inr [\<lparr>natural = ''tomorrow at 8:15 pm'', precise = Some ''Thu, Jan 11 at 8:15 pm'',
           date = Some 15615\<rparr>]"
    by (simp add: suggest_def t rule_defs fx_defs string_defs truthy_str_def Let_def)
  have m: "getMinutes (fx_engine wed_morning) (Some 15615) = 15"
    by (simp add: fx_engine_def)
  have c: "printConciseTime (fx_engine wed_morning) (Some 15615) = Inr ''8:15 pm''"
    by (simp add: fx_defs)
  from precise_label_of_every_suggestion [OF s, of "\<lparr>natural = ''tomorrow at 8:15 pm'',
           precise = Some ''Thu, Jan 11 at 8:15 pm'', date = Some 15615\<rparr>"]
  show ?thesis
    by (simp add: s m c)
qed

text \<open>
  C10, as it is stated, fails. It has the tomorrow rule contribute a suggestion on every
  input whose residual word is empty. The input "99pm" has an empty word and the time
  "99 pm", which the example engine cannot read; line 67 formats the invalid date, and
  the \<^verbatim>\<open>TypeError\<close> ends \<^verbatim>\<open>suggest\<close> before the tomorrow rule is reached.
\<close>

theorem tomorrow_rule_99pm_counterexample:
  "tokenize ''99pm'' = Inr \<lparr>time = Some ''99 pm'', dayOfMonth = None, digits = [], word = []\<rparr>
   \<and> Date_create (fx_engine wed_morning) ''99 pm'' = None
   \<and> suggest (fx_engine wed_morning) ''99pm'' = Inl TypeError"
proof -
  have t: "tokenize ''99pm'' =
      Inr \<lparr>time = Some ''99 pm'', dayOfMonth = None, digits = [], word = []\<rparr>"
    by (simp add: tokenize_defs string_defs)
  show ?thesis
    by (simp add: suggest_def t rule_defs fx_defs string_defs truthy_str_def Let_def)
qed

text \<open>
  C10, amended. When the residual word is empty, the empty input included, the today and
  tonight rules, which ask for a non-empty word, do not fire, and the test of the tomorrow
  rule holds, since every string starts with the empty string: the rule formats the date
  of "tomorrow" and the time, and appends a "tomorrow at ..." suggestion unless the
  formatting throws. So whenever \<^verbatim>\<open>suggest\<close> returns on such an input, its list is not
  empty and ends with that suggestion. On the empty input \<^verbatim>\<open>suggest\<close> does what the
  tomorrow rule and the final pass do on the date of "tomorrow 8 am": it returns a list of
  that one suggestion when the engine formats that date.
\<close>

theorem tomorrow_rule_on_empty_word:
  "(tokenize input = Inr st \<and> word st = [] \<longrightarrow>
      (let d = Date_create E (''tomorrow '' @ or_str (time st) (guessTime (nth_opt (digits st) 0)))
       in rule_today E st res = Inr res \<and> rule_tonight E st res = Inr res
          \<and> rule_tomorrow E st res =
              andThen (printConciseTime E d)
                (\<lambda>c. Inr (res @ [\<lparr>natural = ''tomorrow at '' @ c, precise = None, date = d\<rparr>]))
          \<and> (\<forall>out. suggest E input = Inr out \<longrightarrow>
                out \<noteq> [] \<and> date (last out) = d
                \<and> (\<exists>c. printConciseTime E d = Inr c \<and> natural (last out) = ''tomorrow at '' @ c))))
   \<and> suggest E [] =
       andThen (printConciseTime E (Date_create E ''tomorrow 8 am''))
         (\<lambda>c. andThen (printPrecise E (Date_create E ''tomorrow 8 am''))
           (\<lambda>p. Inr [\<lparr>natural = ''tomorrow at '' @ c, precise = Some p,
                       date = Date_create E ''tomorrow 8 am''\<rparr>]))"
proof -
  have t: "tokenize [] = Inr \<lparr>time = None, dayOfMonth = None, digits = [], word = []\<rparr>"
    by (simp add: tokenize_defs string_defs)
  have e: "suggest E [] =
       andThen (printConciseTime E (Date_create E ''tomorrow 8 am''))
         (\<lambda>c. andThen (printPrecise E (Date_create E ''tomorrow 8 am''))
           (\<lambda>p. Inr [\<lparr>natural = ''tomorrow at '' @ c, precise = Some p,
                       date = Date_create E ''tomorrow 8 am''\<rparr>]))"
    by (cases "printConciseTime E (Date_create E ''tomorrow 8 am'')")
      (simp_all add: t suggest_def rule_defs guessTime_def truthy_str_def startsWith_def Let_def)
  define d where "d = Date_create E (''tomorrow '' @ or_str (time st) (guessTime (nth_opt (digits st) 0)))"
  have m: "rule_tomorrow E st res =
      andThen (printConciseTime E d)
        (\<lambda>c. Inr (res @ [\<lparr>natural = ''tomorrow at '' @ c, precise = None, date = d\<rparr>]))"
    if "word st = []" for res
    using that by (simp add: rule_tomorrow_def startsWith_def d_def Let_def)
  have l: "out \<noteq> [] \<and> date (last out) = d
      \<and> (\<exists>c. printConciseTime E d = Inr c \<and> natural (last out) = ''tomorrow at '' @ c)"
    if tk: "tokenize input = Inr st" and w: "word st = []" and s: "suggest E input = Inr out" for out
  proof -
    from s tk obtain r where r: "rules E st = Inr r" and f: "final_pass E r = Inr out"
      by (auto simp: suggest_def andThen_eq_Inr)
    from r obtain r0 c where c: "printConciseTime E d = Inr c"
      and r': "r = r0 @ [\<lparr>natural = ''tomorrow at '' @ c, precise = None, date = d\<rparr>]"
      by (auto simp: rules_def rules_empty_word [OF w] m [OF w] andThen_eq_Inr)
    from final_pass_returns [OF f] have "map date out = map date r" "map natural out = map natural r"
      by simp_all
    with r' have "out \<noteq> []" "last (map date out) = d"
      "last (map natural out) = ''tomorrow at '' @ c"
      by auto
    with c show ?thesis by (simp add: last_map)
  qed
  show ?thesis
    using e m l by (simp add: Let_def rules_empty_word d_def)
qed

theorem tomorrow_rule_on_empty_word_witness:
  "tokenize ''  7 '' = Inr \<lparr>time = None, dayOfMonth = None, digits = [7], word = []\<rparr>
   \<and> rule_tomorrow (fx_engine wed_morning)
       \<lparr>time = None, dayOfMonth = None, digits = [7], word = []\<rparr> [] =
       Inr [\<lparr>natural = ''tomorrow at 7 pm'', precise = None, date = Some 15540\<rparr>]
   \<and> suggest (fx_engine wed_morning) ''  7 '' =
       Inr [\<lparr>natural = ''for 7 hours'', precise = Some ''Wed, Jan 10 at 5 pm'', date = Some 13980\<rparr>,
            \<lparr>natural = ''for 7 days'', precise = Some ''Wed, Jan 17 at 10 am'', date = Some 23640\<rparr>,
            \<lparr>natural = ''today, 7 pm'', precise = Some ''Wed, Jan 10 at 7 pm'', date = Some 14100\<rparr>,
            \<lparr>natural = ''tomorrow at 7 pm'', precise = Some ''Thu, Jan 11 at 7 pm'', date = Some 15540\<rparr>]
   \<and> suggest (fx_engine wed_morning) [] =
       Inr [\<lparr>natural = ''tomorrow at 8 am'', precise = Some ''Thu, Jan 11 at 8 am'',
             date = Some 14880\<rparr>]"
proof -
  have t: "tokenize ''  7 '' = Inr \<lparr>time = None, dayOfMonth = None, digits = [7], word = []\<rparr>"
    by (simp add: tokenize_defs string_defs)
  have r: "rule_tomorrow (fx_engine wed_morning)
       \<lparr>time = None, dayOfMonth = None, digits = [7], word = []\<rparr> [] =
       Inr [\<lparr>natural = ''tomorrow at 7 pm'', precise = None, date = Some 15540\<rparr>]"
    by (simp add: rule_defs fx_defs string_defs truthy_str_def Let_def)
  have s: "suggest (fx_engine wed_morning) ''  7 '' =
       Inr [\<lparr>natural = ''for 7 hours'', precise = Some ''Wed, Jan 10 at 5 pm'', date = Some 13980\<rparr>,
            \<lparr>natural = ''for 7 days'', precise = Some ''Wed, Jan 17 at 10 am'', date = Some 23640\<rparr>,
            \<lparr>natural = ''today, 7 pm'', precise = Some ''Wed, Jan 10 at 7 pm'', date = Some 14100\<rparr>,
            \<lparr>natural = ''tomorrow at 7 pm'', precise = Some ''Thu, Jan 11 at 7 pm'', date = Some 15540\<rparr>]"
    by (simp add: suggest_def t rule_defs fx_defs string_defs truthy_str_def Let_def)
  have d: "Date_create (fx_engine wed_morning) ''tomorrow 8 am'' = Some 14880"
      "printConciseTime (fx_engine wed_morning) (Some 14880) = Inr ''8 am''"
      "printPrecise (fx_engine wed_morning) (Some 14880) = Inr ''Thu, Jan 11 at 8 am''"
    by (simp_all add: fx_defs string_defs)
  from tomorrow_rule_on_empty_word
         [of "''  7 ''" "\<lparr>time = None, dayOfMonth = None, digits = [7], word = []\<rparr>"
             "fx_engine wed_morning" "[]"]
  have "suggest (fx_engine wed_morning) [] =
       Inr [\<lparr>natural = ''tomorrow at 8 am'', precise = Some ''Thu, Jan 11 at 8 am'',
             date = Some 14880\<rparr>]"
    by (simp add: d)
  with t r s show ?thesis by simp
qed

end
